theory Spec2Isabelle
  imports Main
begin

section \<open>Python values used by the sources\<close>

text \<open>
  A Python \<^verbatim>\<open>dict\<close> with string keys is an association list (insertion ordered, looked up
  with \<open>map_of\<close>). \<^verbatim>\<open>d.get(k)\<close> is \<open>dict_get d k\<close>, \<^verbatim>\<open>k in d\<close> is \<open>dict_has d k\<close>.
  The values the sources store in session and act dictionaries are strings.
\<close>

type_synonym 'v dict = "(string \<times> 'v) list"

type_synonym act_claim = "string dict"

definition dict_get :: "'v dict \<Rightarrow> string \<Rightarrow> 'v option" where
  "dict_get d k = map_of d k"

definition dict_has :: "'v dict \<Rightarrow> string \<Rightarrow> bool" where
  "dict_has d k = (case map_of d k of None \<Rightarrow> False | Some _ \<Rightarrow> True)"

text \<open>
  Truth value of the result of \<^verbatim>\<open>d.get(k)\<close> for string values: \<^verbatim>\<open>None\<close> and the empty
  string are false, every other string is true.
\<close>

definition py_truthy :: "string option \<Rightarrow> bool" where
  "py_truthy x = (case x of None \<Rightarrow> False | Some s \<Rightarrow> s \<noteq> [])"

text \<open>Python's \<^verbatim>\<open>a or b\<close>: \<open>a\<close> when it is true, \<open>b\<close> otherwise.\<close>

definition py_or :: "string option \<Rightarrow> string option \<Rightarrow> string option" where
  "py_or a b = (if py_truthy a then a else b)"

text \<open>\<^verbatim>\<open>s.startswith(p)\<close>.\<close>

definition startswith :: "string \<Rightarrow> string \<Rightarrow> bool" where
  "startswith s p = (take (length p) s = p)"

section \<open>The signed assertion and the JWT library\<close>

text \<open>
  The payload of an act JWT is a JSON object. The fields the sources write or read are
  \<^verbatim>\<open>iss, sub, aud, exp, iat, jti, act\<close>; each may be absent from a token that some other
  signer produced, so each is optional. Times are whole seconds since the epoch.
\<close>

record claims =
  c_iss :: "string option"
  c_sub :: "string option"
  c_aud :: "string option"
  c_exp :: "int option"
  c_iat :: "int option"
  c_jti :: "string option"
  c_act :: "act_claim option"

text \<open>
  Keys are symbolic: an RSA key pair is a number, and the private and the public half of
  one pair carry the same number. A signature is symbolic as well: an RS256 signature
  records the key that made it and the header and payload it was made over, so that a
  token whose payload was replaced after signing no longer verifies. Every other
  signature field (empty, a MAC, random bytes) is opaque.
\<close>

type_synonym key_id = nat

record jose_header =
  alg :: string

datatype jws_signature =
    RS256_Sig key_id jose_header claims
  | Opaque_Sig string

record jwt =
  jwt_header :: jose_header
  jwt_payload :: claims
  jwt_signature :: jws_signature

text \<open>
  \<^verbatim>\<open>jwt.encode(payload, key, algorithm='RS256')\<close> of the PyJWT library, which is not part of
  the repository: header \<^verbatim>\<open>{"alg": "RS256", "typ": "JWT"}\<close>, the payload, and the RS256
  signature of both under the private key.
\<close>

definition jwt_encode :: "claims \<Rightarrow> key_id \<Rightarrow> jwt" where
  "jwt_encode payload key =
     \<lparr>jwt_header = \<lparr>alg = ''RS256''\<rparr>,
      jwt_payload = payload,
      jwt_signature = RS256_Sig key \<lparr>alg = ''RS256''\<rparr> payload\<rparr>"

text \<open>
  The exceptions of \<^verbatim>\<open>jwt.decode\<close> that a well-formed token can meet. In PyJWT each of
  them is a subclass of \<^verbatim>\<open>InvalidTokenError\<close>. The verifier names three of them in
  handlers of their own (\<^verbatim>\<open>ExpiredSignatureError\<close>, \<^verbatim>\<open>InvalidAudienceError\<close>,
  \<^verbatim>\<open>InvalidSignatureError\<close>); none of \<^verbatim>\<open>InvalidAlgorithmError\<close>,
  \<^verbatim>\<open>ImmatureSignatureError\<close> and \<^verbatim>\<open>MissingRequiredClaimError\<close> is a subclass of one
  of these three.
  A token here is one that parses (three segments, a JSON header and a JSON payload
  whose fields have the types of \<open>claims\<close>); a string that does not parse raises
  \<^verbatim>\<open>DecodeError\<close>, another \<^verbatim>\<open>InvalidTokenError\<close>, before anything else happens.
\<close>

datatype jwt_exception =
    InvalidAlgorithmError
  | InvalidSignatureError
  | ImmatureSignatureError
  | ExpiredSignatureError
  | MissingRequiredClaimError string
  | InvalidAudienceError

text \<open>
  \<^verbatim>\<open>jwt.decode(token, key, algorithms=..., audience=..., options={'verify_exp': True})\<close>,
  in the order PyJWT works:
  \<^enum> the header's \<^verbatim>\<open>alg\<close> must be one of \<^verbatim>\<open>algorithms\<close>
    (\<^verbatim>\<open>InvalidAlgorithmError\<close> otherwise);
  \<^enum> the signature must verify under the key (\<^verbatim>\<open>InvalidSignatureError\<close>);
  \<^enum> only then the payload's claims are read: \<^verbatim>\<open>iat\<close> must not lie in the future
    (\<^verbatim>\<open>ImmatureSignatureError\<close>), \<^verbatim>\<open>exp\<close> must be later than now
    (\<^verbatim>\<open>ExpiredSignatureError\<close> when \<^verbatim>\<open>exp <= now\<close>), \<^verbatim>\<open>aud\<close> must be present and
    non-empty (\<^verbatim>\<open>MissingRequiredClaimError\<close>) and equal to the expected audience
    (\<^verbatim>\<open>InvalidAudienceError\<close>).
  The clock reading \<open>now\<close> is an argument. Comparing the integer claims with the clock's
  fractional reading gives the same answers as comparing them with its integer part.
\<close>

definition rs256_verify :: "key_id \<Rightarrow> jwt \<Rightarrow> bool" where
  "rs256_verify key t =
     (jwt_signature t = RS256_Sig key (jwt_header t) (jwt_payload t))"

definition validate_iat :: "claims \<Rightarrow> int \<Rightarrow> jwt_exception option" where
  "validate_iat payload now =
     (case c_iat payload of
        None \<Rightarrow> None
      | Some i \<Rightarrow> if now < i then Some ImmatureSignatureError else None)"

definition validate_exp :: "claims \<Rightarrow> int \<Rightarrow> jwt_exception option" where
  "validate_exp payload now =
     (case c_exp payload of
        None \<Rightarrow> None
      | Some e \<Rightarrow> if e \<le> now then Some ExpiredSignatureError else None)"

definition validate_aud :: "claims \<Rightarrow> string \<Rightarrow> jwt_exception option" where
  "validate_aud payload audience =
     (case c_aud payload of
        None \<Rightarrow> Some (MissingRequiredClaimError ''aud'')
      | Some a \<Rightarrow>
          if a = [] then Some (MissingRequiredClaimError ''aud'')
          else if audience = a then None
          else Some InvalidAudienceError)"

definition validate_claims :: "claims \<Rightarrow> string \<Rightarrow> int \<Rightarrow> jwt_exception + claims" where
  "validate_claims payload audience now =
     (case validate_iat payload now of
        Some e \<Rightarrow> Inl e
      | None \<Rightarrow>
          (case validate_exp payload now of
             Some e \<Rightarrow> Inl e
           | None \<Rightarrow>
               (case validate_aud payload audience of
                  Some e \<Rightarrow> Inl e
                | None \<Rightarrow> Inr payload)))"

definition jwt_decode ::
  "jwt \<Rightarrow> key_id \<Rightarrow> string list \<Rightarrow> string \<Rightarrow> int \<Rightarrow> jwt_exception + claims" where
  "jwt_decode t key algorithms audience now =
     (if alg (jwt_header t) = [] then Inl InvalidAlgorithmError
      else if alg (jwt_header t) \<in> set algorithms then
        (if rs256_verify key t then validate_claims (jwt_payload t) audience now
         else Inl InvalidSignatureError)
      else Inl InvalidAlgorithmError)"

section \<open>Hybrid sender (code/python/hybrid\_sender.py)\<close>

text \<open>
  \<open>private_key\<close> is \<^verbatim>\<open>self._private_key\<close>: \<open>None\<close> when the sender was built without
  a key file. Every failure of the sender is a Python \<^verbatim>\<open>ValueError\<close>; the constructors
  name the raise sites by the error kinds of the specification:
  \<^item> \<open>SigningKeyMissing\<close>: "HybridSender not configured for out-of-session";
  \<^item> \<open>InvalidClaim\<close>: "Act must contain 'sub' field";
  \<^item> \<open>InvalidAssertionRequest\<close>: "Agent endpoint must use HTTPS";
  \<^item> \<open>SessionNotDict\<close>: "Session must be a dictionary";
  \<^item> \<open>MissingIdentity\<close>: "Session must contain email".
\<close>

record hybrid_sender =
  private_key :: "key_id option"

datatype sender_error =
    SigningKeyMissing
  | InvalidClaim
  | InvalidAssertionRequest
  | SessionNotDict
  | MissingIdentity

text \<open>
  \<^verbatim>\<open>prepare_out_of_session_act(self, act, agent_endpoint, ttl_seconds=60)\<close>. The two
  readings of the environment are arguments: \<open>now\<close> is \<^verbatim>\<open>int(time.time())\<close> and \<open>jti\<close>
  is \<^verbatim>\<open>secrets.token_urlsafe(32)\<close>.
\<close>

definition prepare_out_of_session_act ::
  "hybrid_sender \<Rightarrow> act_claim \<Rightarrow> string \<Rightarrow> int \<Rightarrow> int \<Rightarrow> string \<Rightarrow> sender_error + jwt" where
  "prepare_out_of_session_act self act agent_endpoint ttl_seconds now jti =
     (case private_key self of
        None \<Rightarrow> Inl SigningKeyMissing
      | Some key \<Rightarrow>
          if act = [] then Inl InvalidClaim
          else if \<not> dict_has act ''sub'' then Inl InvalidClaim
          else if agent_endpoint = [] then Inl InvalidAssertionRequest
          else if \<not> startswith agent_endpoint ''https://'' then Inl InvalidAssertionRequest
          else Inr (jwt_encode
                 \<lparr>c_iss = Some ''application'',
                  c_sub = Some ''application'',
                  c_aud = Some agent_endpoint,
                  c_exp = Some (now + ttl_seconds),
                  c_iat = Some now,
                  c_jti = Some jti,
                  c_act = Some act\<rparr> key))"

text \<open>\<^verbatim>\<open>prepare_in_session_act\<close> returns the act it was given.\<close>

definition prepare_in_session_act :: "hybrid_sender \<Rightarrow> act_claim \<Rightarrow> act_claim" where
  "prepare_in_session_act self act = act"

text \<open>
  \<^verbatim>\<open>extract_act_from_session(self, session)\<close>. The session is a dictionary with string
  values; \<^verbatim>\<open>not session\<close> holds for the empty dictionary.
\<close>

definition extract_act_from_session ::
  "hybrid_sender \<Rightarrow> string dict \<Rightarrow> sender_error + act_claim" where
  "extract_act_from_session self session =
     (if session = [] then Inl SessionNotDict
      else
        (let email = py_or (py_or (py_or (dict_get session ''email'')
                                         (dict_get session ''user_email''))
                                  (dict_get session ''userPrincipalName''))
                           (dict_get session ''mail'')
         in case email of
              None \<Rightarrow> Inl MissingIdentity
            | Some email_v \<Rightarrow>
                if email_v = [] then Inl MissingIdentity
                else
                  (let sub = py_or (py_or (py_or (dict_get session ''sub'')
                                                 (dict_get session ''user_id''))
                                          (dict_get session ''oid''))
                                   (Some email_v);
                       name = py_or (py_or (dict_get session ''name'')
                                           (dict_get session ''display_name''))
                                    (dict_get session ''displayName'');
                       act = [(''sub'', (case sub of Some s \<Rightarrow> s | None \<Rightarrow> email_v)),
                              (''email'', email_v)]
                   in Inr (if py_truthy name
                           then act @ [(''name'', (case name of Some n \<Rightarrow> n | None \<Rightarrow> []))]
                           else act))))"

section \<open>Out-of-session verifier (code/out\_of\_session\_token\_request.py)\<close>

text \<open>
  The state of an \<^verbatim>\<open>OutOfSessionTokenRequest\<close> that verification reads and writes:
  the application's public key and the set \<^verbatim>\<open>_used_jtis\<close>.
\<close>

record verifier =
  app_public_key :: key_id
  used_jtis :: "string set"

text \<open>
  Every failure of the verifier is a \<^verbatim>\<open>ValueError\<close>; the constructors name the raise
  sites by the error kinds of the specification:
  \<^item> \<open>Expired\<close>: "Act JWT expired" (handler of \<^verbatim>\<open>ExpiredSignatureError\<close>);
  \<^item> \<open>AudienceMismatch\<close>: "Act JWT invalid audience" (handler of \<^verbatim>\<open>InvalidAudienceError\<close>);
  \<^item> \<open>SignatureInvalid\<close>: "Act JWT signature invalid" (handler of \<^verbatim>\<open>InvalidSignatureError\<close>);
  \<^item> \<open>InvalidToken e\<close>: "Act JWT invalid: e" (the last handler, of every other
    \<^verbatim>\<open>InvalidTokenError\<close>);
  \<^item> \<open>ReplayDetected\<close>: "Act JWT replay detected";
  \<^item> \<open>MalformedClaim\<close>: "Act JWT must contain act.sub".
\<close>

datatype verify_error =
    Expired
  | AudienceMismatch
  | SignatureInvalid
  | InvalidToken jwt_exception
  | ReplayDetected
  | MalformedClaim

text \<open>The four \<^verbatim>\<open>except\<close> clauses, in the order of the source.\<close>

fun handle_jwt_exception :: "jwt_exception \<Rightarrow> verify_error" where
  "handle_jwt_exception ExpiredSignatureError = Expired"
| "handle_jwt_exception InvalidAudienceError = AudienceMismatch"
| "handle_jwt_exception InvalidSignatureError = SignatureInvalid"
| "handle_jwt_exception e = InvalidToken e"

text \<open>
  Lines 99 to 104: \<^verbatim>\<open>jti = decoded.get('jti')\<close>; when it is true, a jti already in
  \<^verbatim>\<open>_used_jtis\<close> raises and any other is added to the set.
\<close>

definition replay_check :: "verifier \<Rightarrow> string option \<Rightarrow> verify_error + verifier" where
  "replay_check self jti =
     (case jti of
        None \<Rightarrow> Inr self
      | Some j \<Rightarrow>
          if j = [] then Inr self
          else if j \<in> used_jtis self then Inl ReplayDetected
          else Inr (self\<lparr>used_jtis := insert j (used_jtis self)\<rparr>))"

text \<open>
  \<^verbatim>\<open>receive_and_verify_act_jwt(self, act_jwt, expected_audience)\<close> returns the outcome
  and the verifier's state after the call; \<open>now\<close> is the clock reading of the call.
\<close>

definition receive_and_verify_act_jwt ::
  "verifier \<Rightarrow> jwt \<Rightarrow> string \<Rightarrow> int \<Rightarrow> (verify_error + act_claim) \<times> verifier" where
  "receive_and_verify_act_jwt self act_jwt expected_audience now =
     (case jwt_decode act_jwt (app_public_key self) [''RS256''] expected_audience now of
        Inl e \<Rightarrow> (Inl (handle_jwt_exception e), self)
      | Inr decoded \<Rightarrow>
          (case replay_check self (c_jti decoded) of
             Inl err \<Rightarrow> (Inl err, self)
           | Inr self' \<Rightarrow>
               (case c_act decoded of
                  None \<Rightarrow> (Inl MalformedClaim, self')
                | Some act \<Rightarrow>
                    if act = [] then (Inl MalformedClaim, self')
                    else if dict_has act ''sub'' then (Inr act, self')
                    else (Inl MalformedClaim, self'))))"

text \<open>
  A run of the verifier: the calls are made one after the other on the same instance,
  each with its own token, expected audience and clock reading; the result is the list
  of outcomes.
\<close>

fun verify_calls ::
  "verifier \<Rightarrow> (jwt \<times> string \<times> int) list \<Rightarrow> (verify_error + act_claim) list" where
  "verify_calls self [] = []"
| "verify_calls self ((act_jwt, expected_audience, now) # calls) =
     fst (receive_and_verify_act_jwt self act_jwt expected_audience now) #
     verify_calls (snd (receive_and_verify_act_jwt self act_jwt expected_audience now)) calls"

section \<open>Vendor adapters (agents/python/adapters)\<close>

text \<open>
  The identity provider is the environment. A call of \<^verbatim>\<open>requests.post\<close> either raises
  (no connection, timeout) or returns a response; \<open>json_body\<close> is what
  \<^verbatim>\<open>response.json()\<close> parses, \<open>None\<close> when the body is not JSON.
\<close>

record http_response =
  status_code :: int
  json_body :: "string dict option"

datatype post_outcome =
    Responded http_response
  | ConnectionFailed

record token_request_body =
  grant_type :: string
  body_client_id :: string
  body_client_secret :: string
  body_audience :: "string option"
  body_scope :: string
  body_sub :: string
  body_act :: act_claim

datatype body_encoding = JsonBody | FormBody

record http_request =
  req_url :: string
  req_encoding :: body_encoding
  req_body :: token_request_body

type_synonym network = "http_request \<Rightarrow> post_outcome"

text \<open>
  The Python exceptions that leave the adapters and the session orchestrators.
  \<^verbatim>\<open>requests.HTTPError\<close> carries the response it was raised for;
  \<^verbatim>\<open>TokenRequestError(message, status_code=None)\<close> is the class of base\_adapter.py.
\<close>

datatype py_exception =
    HTTPError http_response
  | ConnectionError
  | JSONDecodeError
  | AttributeError
  | ValueError string
  | TokenRequestError string "int option"

text \<open>\<^verbatim>\<open>e.__class__.__name__\<close>.\<close>

fun class_name :: "py_exception \<Rightarrow> string" where
  "class_name (HTTPError r) = ''HTTPError''"
| "class_name ConnectionError = ''ConnectionError''"
| "class_name JSONDecodeError = ''JSONDecodeError''"
| "class_name AttributeError = ''AttributeError''"
| "class_name (ValueError m) = ''ValueError''"
| "class_name (TokenRequestError m c) = ''TokenRequestError''"

text \<open>\<^verbatim>\<open>response.raise_for_status()\<close> raises for the status codes 400 to 599 only.\<close>

definition raise_for_status :: "http_response \<Rightarrow> py_exception option" where
  "raise_for_status r =
     (if 400 \<le> status_code r \<and> status_code r < 600 then Some (HTTPError r) else None)"

text \<open>\<^verbatim>\<open>" ".join(scope)\<close>.\<close>

fun join_scope :: "string list \<Rightarrow> string" where
  "join_scope [] = []"
| "join_scope [s] = s"
| "join_scope (s # ss) = s @ '' '' @ join_scope ss"

text \<open>
  What follows \<^verbatim>\<open>requests.post\<close> in each of the three adapters: the status check, the
  JSON parse, and two handlers that log the exception and raise it again unchanged.
\<close>

definition read_token_response :: "post_outcome \<Rightarrow> py_exception + string dict" where
  "read_token_response outcome =
     (case outcome of
        ConnectionFailed \<Rightarrow> Inl ConnectionError
      | Responded r \<Rightarrow>
          (case raise_for_status r of
             Some e \<Rightarrow> Inl e
           | None \<Rightarrow>
               (case json_body r of
                  None \<Rightarrow> Inl JSONDecodeError
                | Some token_data \<Rightarrow> Inr token_data)))"

record agent_adapter =
  token_url :: string
  client_id :: string
  client_secret :: string

record entraid_adapter = agent_adapter +
  tenant_id :: string

text \<open>\<^verbatim>\<open>Auth0Adapter.__init__(self, domain, client_id, client_secret)\<close>.\<close>

definition Auth0Adapter_init :: "string \<Rightarrow> string \<Rightarrow> string \<Rightarrow> agent_adapter" where
  "Auth0Adapter_init domain cid secret =
     \<lparr>token_url = ''https://'' @ domain @ ''/oauth/token'',
      client_id = cid, client_secret = secret\<rparr>"

text \<open>\<^verbatim>\<open>OktaAdapter.__init__(self, token_url, client_id, client_secret)\<close>.\<close>

definition OktaAdapter_init :: "string \<Rightarrow> string \<Rightarrow> string \<Rightarrow> agent_adapter" where
  "OktaAdapter_init url cid secret =
     \<lparr>token_url = url, client_id = cid, client_secret = secret\<rparr>"

text \<open>\<^verbatim>\<open>EntraIDAdapter.__init__(self, token_url, client_id, client_secret, tenant_id)\<close>.\<close>

definition EntraIDAdapter_init ::
  "string \<Rightarrow> string \<Rightarrow> string \<Rightarrow> string \<Rightarrow> entraid_adapter" where
  "EntraIDAdapter_init url cid secret tenant =
     \<lparr>token_url = url, client_id = cid, client_secret = secret, tenant_id = tenant\<rparr>"

text \<open>\<^verbatim>\<open>Auth0Adapter.request_token(self, sub, act, scope)\<close>.\<close>

definition Auth0Adapter_request_token ::
  "agent_adapter \<Rightarrow> network \<Rightarrow> string \<Rightarrow> act_claim \<Rightarrow> string list \<Rightarrow>
   py_exception + string dict" where
  "Auth0Adapter_request_token self post sub act scope =
     read_token_response
       (post \<lparr>req_url = token_url self, req_encoding = JsonBody,
              req_body = \<lparr>grant_type = ''client_credentials'',
                          body_client_id = client_id self,
                          body_client_secret = client_secret self,
                          body_audience = Some ''https://api.example.com/'',
                          body_scope = join_scope scope,
                          body_sub = sub,
                          body_act = act\<rparr>\<rparr>)"

text \<open>\<^verbatim>\<open>OktaAdapter.request_token(self, sub, act, scope)\<close>.\<close>

definition OktaAdapter_request_token ::
  "agent_adapter \<Rightarrow> network \<Rightarrow> string \<Rightarrow> act_claim \<Rightarrow> string list \<Rightarrow>
   py_exception + string dict" where
  "OktaAdapter_request_token self post sub act scope =
     read_token_response
       (post \<lparr>req_url = token_url self, req_encoding = JsonBody,
              req_body = \<lparr>grant_type = ''client_credentials'',
                          body_client_id = client_id self,
                          body_client_secret = client_secret self,
                          body_audience = None,
                          body_scope = join_scope scope,
                          body_sub = sub,
                          body_act = act\<rparr>\<rparr>)"

text \<open>\<^verbatim>\<open>EntraIDAdapter.request_token(self, sub, act, scope)\<close>.\<close>

definition EntraIDAdapter_request_token ::
  "entraid_adapter \<Rightarrow> network \<Rightarrow> string \<Rightarrow> act_claim \<Rightarrow> string list \<Rightarrow>
   py_exception + string dict" where
  "EntraIDAdapter_request_token self post sub act scope =
     read_token_response
       (post \<lparr>req_url = token_url self, req_encoding = FormBody,
              req_body = \<lparr>grant_type = ''client_credentials'',
                          body_client_id = client_id self,
                          body_client_secret = client_secret self,
                          body_audience = None,
                          body_scope = join_scope scope,
                          body_sub = sub,
                          body_act = act\<rparr>\<rparr>)"

section \<open>The validating base class (code/python/base\_adapter.py)\<close>

text \<open>
  \<^verbatim>\<open>BaseAdapter.__init__(self, config)\<close>. The configuration is a dictionary with string
  values. Both failures are Python \<^verbatim>\<open>ValueError\<close>s, the configuration errors of the
  specification: \<open>MissingConfiguration fs\<close> is "Missing required configuration: fs" and
  \<open>TokenUrlNotHttps\<close> is "Token URL must use HTTPS (https://)". \<open>KeyError\<close> is what
  \<^verbatim>\<open>config['token_url']\<close> raises for an absent key.
\<close>

datatype config_error =
    MissingConfiguration "string list"
  | TokenUrlNotHttps
  | KeyError string

record base_adapter =
  base_config :: "string dict"
  base_token_url :: string
  base_client_id :: string
  base_client_secret :: string
  base_audience :: "string option"

definition required_fields :: "string list" where
  "required_fields = [''token_url'', ''client_id'', ''client_secret'']"

definition dict_index :: "string dict \<Rightarrow> string \<Rightarrow> config_error + string" where
  "dict_index d k = (case map_of d k of None \<Rightarrow> Inl (KeyError k) | Some v \<Rightarrow> Inr v)"

definition BaseAdapter_init :: "string dict \<Rightarrow> config_error + base_adapter" where
  "BaseAdapter_init config =
     (let missing_fields = filter (\<lambda>f. \<not> dict_has config f) required_fields in
      if missing_fields \<noteq> [] then Inl (MissingConfiguration missing_fields)
      else
        (case dict_index config ''token_url'' of
           Inl e \<Rightarrow> Inl e
         | Inr url \<Rightarrow>
             if \<not> startswith url ''https://'' then Inl TokenUrlNotHttps
             else
               (case dict_index config ''client_id'' of
                  Inl e \<Rightarrow> Inl e
                | Inr cid \<Rightarrow>
                    (case dict_index config ''client_secret'' of
                       Inl e \<Rightarrow> Inl e
                     | Inr secret \<Rightarrow>
                         Inr \<lparr>base_config = config,
                              base_token_url = url,
                              base_client_id = cid,
                              base_client_secret = secret,
                              base_audience = dict_get config ''audience''\<rparr>))))"

section \<open>In-session orchestrator (code/in\_session\_token\_request.py)\<close>

text \<open>
  \<^verbatim>\<open>TokenResponse\<close> of base\_adapter.py. The orchestrator reads
  \<^verbatim>\<open>token_response.expires_in\<close> of whatever its adapter returned: an adapter that returns
  a plain dictionary makes that read raise \<^verbatim>\<open>AttributeError\<close>.
\<close>

record token_response =
  access_token :: string
  token_type :: string
  expires_in :: int
  granted_scope :: string
  act_assertion :: "string option"

datatype adapter_result =
    TokenDict "string dict"
  | TokenResponseObj token_response

type_synonym adapter_call =
  "string \<Rightarrow> act_claim \<Rightarrow> string list \<Rightarrow> py_exception + adapter_result"

text \<open>The two \<^verbatim>\<open>except\<close> clauses of \<^verbatim>\<open>request_token\<close>.\<close>

fun wrap_exception :: "py_exception \<Rightarrow> py_exception" where
  "wrap_exception (TokenRequestError m c) = TokenRequestError m c"
| "wrap_exception e = TokenRequestError (''Unexpected error: '' @ class_name e) None"

definition InSessionTokenRequest_request_token ::
  "adapter_call \<Rightarrow> string \<Rightarrow> act_claim \<Rightarrow> string list \<Rightarrow> py_exception + token_response" where
  "InSessionTokenRequest_request_token adapter agent_id act scope =
     (if agent_id = [] then Inl (ValueError ''Invalid inputs: agent_id, act.sub, and scope required'')
      else if act = [] then Inl (ValueError ''Invalid inputs: agent_id, act.sub, and scope required'')
      else if \<not> dict_has act ''sub'' then Inl (ValueError ''Invalid inputs: agent_id, act.sub, and scope required'')
      else if scope = [] then Inl (ValueError ''Invalid inputs: agent_id, act.sub, and scope required'')
      else
        (case adapter agent_id act scope of
           Inl e \<Rightarrow> Inl (wrap_exception e)
         | Inr (TokenResponseObj r) \<Rightarrow> Inr r
         | Inr (TokenDict d) \<Rightarrow> Inl (wrap_exception AttributeError)))"

section \<open>Predicates used in the statements\<close>

text \<open>
  A token passes the signature stage of \<open>jwt_decode\<close> under a key exactly when its
  header names RS256 and its signature is the RS256 signature of its own header and
  payload under that key.
\<close>

definition signature_verifies :: "key_id \<Rightarrow> jwt \<Rightarrow> bool" where
  "signature_verifies key t = (alg (jwt_header t) = ''RS256'' \<and> rs256_verify key t)"

text \<open>
  The assertion was issued no later than the clock reading of the verification (an
  assertion is verified after it was signed), and it has not expired at that reading.
\<close>

definition issued_by_now :: "claims \<Rightarrow> int \<Rightarrow> bool" where
  "issued_by_now payload now = (case c_iat payload of None \<Rightarrow> True | Some i \<Rightarrow> i \<le> now)"

definition unexpired :: "claims \<Rightarrow> int \<Rightarrow> bool" where
  "unexpired payload now = (case c_exp payload of None \<Rightarrow> True | Some e \<Rightarrow> now < e)"

text \<open>The embedded act is missing or has no \<^verbatim>\<open>sub\<close>.\<close>

definition lacks_sub :: "act_claim option \<Rightarrow> bool" where
  "lacks_sub a = (case a of None \<Rightarrow> True | Some act \<Rightarrow> \<not> dict_has act ''sub'')"

text \<open>
  A call of a run consumed the jti \<open>j\<close>: it was made with a token whose payload carries
  \<open>j\<close>, and it succeeded.
\<close>

definition consumed ::
  "string \<Rightarrow> (jwt \<times> string \<times> int) \<times> (verify_error + act_claim) \<Rightarrow> bool" where
  "consumed j cr =
     (case cr of ((act_jwt, expected_audience, now), r) \<Rightarrow>
        (case r of Inl e \<Rightarrow> False | Inr a \<Rightarrow> c_jti (jwt_payload act_jwt) = Some j))"

text \<open>
  A session field is present when \<^verbatim>\<open>session.get\<close> gives a true value for it, which is how
  \<^verbatim>\<open>extract_act_from_session\<close> tests it: the key is in the session and its value is not
  the empty string.
\<close>

definition has_email :: "string dict \<Rightarrow> bool" where
  "has_email session =
     (py_truthy (dict_get session ''email'') \<or> py_truthy (dict_get session ''user_email'') \<or>
      py_truthy (dict_get session ''userPrincipalName'') \<or> py_truthy (dict_get session ''mail''))"

definition has_subject :: "string dict \<Rightarrow> bool" where
  "has_subject session =
     (py_truthy (dict_get session ''sub'') \<or> py_truthy (dict_get session ''user_id'') \<or>
      py_truthy (dict_get session ''oid''))"

text \<open>
  The two \<^verbatim>\<open>or\<close> chains of \<^verbatim>\<open>extract_act_from_session\<close> that read the email and the
  name, named so that statements can refer to them.
\<close>

definition session_email :: "string dict \<Rightarrow> string option" where
  "session_email session =
     py_or (py_or (py_or (dict_get session ''email'') (dict_get session ''user_email''))
                  (dict_get session ''userPrincipalName''))
           (dict_get session ''mail'')"

definition session_name :: "string dict \<Rightarrow> string option" where
  "session_name session =
     py_or (py_or (dict_get session ''name'') (dict_get session ''display_name''))
           (dict_get session ''displayName'')"

text \<open>
  An Auth0 adapter talking to a given network, as the adapter the in-session
  orchestrator calls: what \<^verbatim>\<open>self.adapter.request_token(agent_id, act, scope)\<close> gives
  when \<^verbatim>\<open>self.adapter\<close> is that adapter. Its result is a dictionary.
\<close>

definition Auth0_adapter_call :: "agent_adapter \<Rightarrow> network \<Rightarrow> adapter_call" where
  "Auth0_adapter_call self post =
     (\<lambda>agent_id act scope.
        case Auth0Adapter_request_token self post agent_id act scope of
          Inl e \<Rightarrow> Inl e
        | Inr token_data \<Rightarrow> Inr (TokenDict token_data))"

section \<open>The JWT library: signature stage and claim stage\<close>

lemma jwt_decode_signed:
  "signature_verifies key t \<Longrightarrow>
   jwt_decode t key [''RS256''] audience now = validate_claims (jwt_payload t) audience now"
  by (simp add: jwt_decode_def signature_verifies_def)

lemma jwt_decode_unsigned:
  "\<not> signature_verifies key t \<Longrightarrow>
   jwt_decode t key [''RS256''] audience now =
     Inl (if alg (jwt_header t) = ''RS256'' then InvalidSignatureError
          else InvalidAlgorithmError)"
  by (auto simp add: jwt_decode_def signature_verifies_def)

lemma jwt_encode_verifies: "signature_verifies key (jwt_encode payload key)"
  by (simp add: signature_verifies_def rs256_verify_def jwt_encode_def)

lemma jwt_encode_payload: "jwt_payload (jwt_encode payload key) = payload"
  by (simp add: jwt_encode_def)

lemma jwt_decode_payload:
  "jwt_decode tok key algs aud t = Inr p \<Longrightarrow> p = jwt_payload tok"
  by (auto simp add: jwt_decode_def validate_claims_def split: if_splits option.splits)

lemma jwt_decode_success_facts:
  assumes "jwt_decode tok key [''RS256''] aud t = Inr p"
  shows "signature_verifies key tok \<and> c_aud (jwt_payload tok) = Some aud \<and> aud \<noteq> []"
  using assms
  by (auto simp add: jwt_decode_def signature_verifies_def validate_claims_def validate_aud_def
      split: if_splits option.splits)

lemma validate_claims_pass:
  assumes "issued_by_now p now" and "unexpired p now"
    and "c_aud p = Some a" and "a \<noteq> []"
  shows "validate_claims p a now = Inr p"
  using assms
  by (simp add: validate_claims_def validate_iat_def validate_exp_def validate_aud_def
      issued_by_now_def unexpired_def split: option.splits)

lemma validate_claims_expired:
  assumes "issued_by_now p now" and "c_exp p = Some e" and "e \<le> now"
  shows "validate_claims p a now = Inl ExpiredSignatureError"
  using assms
  by (simp add: validate_claims_def validate_iat_def validate_exp_def
      issued_by_now_def split: option.splits)

lemma validate_claims_audience:
  assumes "issued_by_now p now" and "unexpired p now"
    and "c_aud p = Some a" and "a \<noteq> []" and "expected \<noteq> a"
  shows "validate_claims p expected now = Inl InvalidAudienceError"
  using assms
  by (simp add: validate_claims_def validate_iat_def validate_exp_def validate_aud_def
      issued_by_now_def unexpired_def split: option.splits)

lemma startswith_nonempty: "startswith s ''https://'' \<Longrightarrow> s \<noteq> []"
  by (auto simp add: startswith_def)

lemma dict_has_nonempty: "dict_has d k \<Longrightarrow> d \<noteq> []"
  by (auto simp add: dict_has_def)

section \<open>The verifier's state\<close>

lemma receive_key_unchanged:
  "app_public_key (snd (receive_and_verify_act_jwt v tok aud t)) = app_public_key v"
  by (simp add: receive_and_verify_act_jwt_def replay_check_def
      split: sum.splits option.splits)

lemma receive_used_mono:
  "j \<in> used_jtis v \<Longrightarrow> j \<in> used_jtis (snd (receive_and_verify_act_jwt v tok aud t))"
  by (simp add: receive_and_verify_act_jwt_def replay_check_def
      split: sum.splits option.splits)

lemma receive_success_decoded:
  assumes "receive_and_verify_act_jwt v tok aud t = (Inr a, v')"
  shows "jwt_decode tok (app_public_key v) [''RS256''] aud t = Inr (jwt_payload tok)"
proof (cases "jwt_decode tok (app_public_key v) [''RS256''] aud t")
  case (Inl e)
  with assms show ?thesis by (simp add: receive_and_verify_act_jwt_def)
next
  case (Inr p)
  then have "p = jwt_payload tok" by (rule jwt_decode_payload)
  with Inr show ?thesis by simp
qed

lemma receive_success_consumes:
  assumes "receive_and_verify_act_jwt v tok aud t = (Inr a, v')"
    and "c_jti (jwt_payload tok) = Some j" and "j \<noteq> []"
  shows "j \<in> used_jtis v'"
proof -
  from assms(1) have "jwt_decode tok (app_public_key v) [''RS256''] aud t = Inr (jwt_payload tok)"
    by (rule receive_success_decoded)
  with assms show ?thesis
    by (auto simp add: receive_and_verify_act_jwt_def replay_check_def
        split: sum.splits option.splits if_splits)
qed

lemma receive_consumed_fails:
  assumes "c_jti (jwt_payload tok) = Some j" and "j \<noteq> []" and "j \<in> used_jtis v"
  shows "\<exists>e. receive_and_verify_act_jwt v tok aud t = (Inl e, v)"
proof (cases "jwt_decode tok (app_public_key v) [''RS256''] aud t")
  case (Inl e)
  then show ?thesis by (simp add: receive_and_verify_act_jwt_def)
next
  case (Inr p)
  then have "p = jwt_payload tok" by (rule jwt_decode_payload)
  with Inr assms show ?thesis
    by (simp add: receive_and_verify_act_jwt_def replay_check_def)
qed

lemma receive_consumed_replay:
  assumes "jwt_decode tok (app_public_key v) [''RS256''] aud t = Inr p"
    and "c_jti (jwt_payload tok) = Some j" and "j \<noteq> []" and "j \<in> used_jtis v"
  shows "receive_and_verify_act_jwt v tok aud t = (Inl ReplayDetected, v)"
proof -
  from assms(1) have "p = jwt_payload tok" by (rule jwt_decode_payload)
  with assms show ?thesis
    by (simp add: receive_and_verify_act_jwt_def replay_check_def)
qed

text \<open>
  Once a jti is in the consumed set, no later call of a run consumes it; and a run
  consumes a non-empty jti at most once, from whatever state it starts.
\<close>

lemma consumed_none_after:
  "j \<noteq> [] \<Longrightarrow> j \<in> used_jtis v \<Longrightarrow> filter (consumed j) (zip cs (verify_calls v cs)) = []"
proof (induction cs arbitrary: v)
  case Nil
  then show ?case by simp
next
  case (Cons c cs)
  obtain tok aud t where c: "c = (tok, aud, t)" by (cases c) auto
  let ?r = "receive_and_verify_act_jwt v tok aud t"
  have used': "j \<in> used_jtis (snd ?r)" using Cons.prems(2) by (rule receive_used_mono)
  have rest: "filter (consumed j) (zip cs (verify_calls (snd ?r) cs)) = []"
    using Cons.prems(1) used' by (rule Cons.IH)
  have head: "\<not> consumed j ((tok, aud, t), fst ?r)"
  proof (cases "c_jti (jwt_payload tok) = Some j")
    case True
    from receive_consumed_fails[OF True Cons.prems(1) Cons.prems(2)]
    obtain e where "?r = (Inl e, v)" by blast
    then show ?thesis by (simp add: consumed_def)
  next
    case False
    then show ?thesis by (simp add: consumed_def split: sum.splits)
  qed
  show ?case using head rest by (simp add: c)
qed

lemma consumed_at_most_once:
  "j \<noteq> [] \<Longrightarrow> length (filter (consumed j) (zip cs (verify_calls v cs))) \<le> 1"
proof (induction cs arbitrary: v)
  case Nil
  then show ?case by simp
next
  case (Cons c cs)
  obtain tok aud t where c: "c = (tok, aud, t)" by (cases c) auto
  let ?r = "receive_and_verify_act_jwt v tok aud t"
  show ?case
  proof (cases "consumed j ((tok, aud, t), fst ?r)")
    case True
    then obtain a where a: "fst ?r = Inr a" and jt: "c_jti (jwt_payload tok) = Some j"
      by (auto simp add: consumed_def split: sum.splits)
    have "?r = (Inr a, snd ?r)" using a by (simp add: prod_eq_iff)
    then have "j \<in> used_jtis (snd ?r)"
      using jt Cons.prems by (rule receive_success_consumes)
    with Cons.prems have "filter (consumed j) (zip cs (verify_calls (snd ?r) cs)) = []"
      by (rule consumed_none_after)
    with True show ?thesis by (simp add: c)
  next
    case False
    with Cons.IH[OF Cons.prems, of "snd ?r"] show ?thesis by (simp add: c)
  qed
qed

section \<open>Claims about the signed assertion\<close>

text \<open>
  Claim C1 (round trip). The sender holds a signing key and the verifier holds the public
  half of the same pair. An act with a \<^verbatim>\<open>sub\<close> (empty or not) is signed for an HTTPS
  audience at the clock reading \<open>now\<close>, and the assertion is then verified for the same
  audience at a reading \<open>t\<close> that is not before \<open>now\<close> and is before the expiry
  \<open>now + ttl_seconds\<close>, by a verifier that has not consumed the assertion's jti. Then
  signing succeeds, verification succeeds and returns the act that was signed, and the
  only change of the verifier is that the jti is now consumed.
\<close>

theorem roundtrip_prepare_then_verify:
  assumes key: "private_key s = Some key" "app_public_key v = key"
    and act: "dict_has act ''sub''"
    and https: "startswith agent_endpoint ''https://''"
    and time: "now \<le> t" "t < now + ttl_seconds"
    and fresh: "jti \<notin> used_jtis v"
  shows "\<exists>tok. prepare_out_of_session_act s act agent_endpoint ttl_seconds now jti = Inr tok \<and>
           receive_and_verify_act_jwt v tok agent_endpoint t =
             (Inr act,
              v\<lparr>used_jtis := (if jti = [] then used_jtis v else insert jti (used_jtis v))\<rparr>)"
proof -
  let ?p = "\<lparr>c_iss = Some ''application'', c_sub = Some ''application'',
             c_aud = Some agent_endpoint, c_exp = Some (now + ttl_seconds),
             c_iat = Some now, c_jti = Some jti, c_act = Some act\<rparr>"
  let ?tok = "jwt_encode ?p key"
  have ne: "agent_endpoint \<noteq> []" using https by (rule startswith_nonempty)
  have actne: "act \<noteq> []" using act by (rule dict_has_nonempty)
  have prep: "prepare_out_of_session_act s act agent_endpoint ttl_seconds now jti = Inr ?tok"
    using key act https ne actne by (simp add: prepare_out_of_session_act_def)
  have dec: "jwt_decode ?tok (app_public_key v) [''RS256''] agent_endpoint t = Inr ?p"
  proof -
    have "signature_verifies (app_public_key v) ?tok"
      using key(2) by (simp add: jwt_encode_verifies)
    then have "jwt_decode ?tok (app_public_key v) [''RS256''] agent_endpoint t =
        validate_claims (jwt_payload ?tok) agent_endpoint t"
      by (rule jwt_decode_signed)
    also have "\<dots> = validate_claims ?p agent_endpoint t"
      by (simp add: jwt_encode_payload)
    also have "\<dots> = Inr ?p"
      using time ne
      by (intro validate_claims_pass) (simp_all add: issued_by_now_def unexpired_def)
    finally show ?thesis .
  qed
  have "receive_and_verify_act_jwt v ?tok agent_endpoint t =
      (Inr act, v\<lparr>used_jtis := (if jti = [] then used_jtis v else insert jti (used_jtis v))\<rparr>)"
    using fresh act actne by (simp add: receive_and_verify_act_jwt_def dec replay_check_def)
  with prep show ?thesis by blast
qed

theorem roundtrip_prepare_then_verify_witness:
  "\<exists>tok. prepare_out_of_session_act \<lparr>private_key = Some 7\<rparr>
            [(''sub'', ''alice''), (''email'', ''alice@example.com'')]
            ''https://agent.example.com'' 60 1000 ''n1'' = Inr tok \<and>
         receive_and_verify_act_jwt \<lparr>app_public_key = 7, used_jtis = {''n0''}\<rparr> tok
            ''https://agent.example.com'' 1059 =
           (Inr [(''sub'', ''alice''), (''email'', ''alice@example.com'')],
            \<lparr>app_public_key = 7, used_jtis = {''n1'', ''n0''}\<rparr>)"
  using roundtrip_prepare_then_verify
    [of "\<lparr>private_key = Some 7\<rparr>" 7 "\<lparr>app_public_key = 7, used_jtis = {''n0''}\<rparr>"
        "[(''sub'', ''alice''), (''email'', ''alice@example.com'')]"
        "''https://agent.example.com''" 1000 1059 60 "''n1''"]
  by (simp add: dict_has_def startswith_def)

text \<open>
  Claim C4 (expiry). A token whose signature verifies under the verifier's key, whose
  \<^verbatim>\<open>exp\<close> is earlier than the clock reading of the call and which was issued no later
  than that reading is rejected with \<open>Expired\<close>, whatever the expected audience is (equal
  to the token's \<^verbatim>\<open>aud\<close> or not), and the verifier is unchanged. Every assertion whose
  \<^verbatim>\<open>exp\<close> is not before its \<^verbatim>\<open>iat\<close> meets the last condition at such a reading.
\<close>

theorem expired_assertion_rejected:
  assumes "signature_verifies (app_public_key v) tok"
    and "c_exp (jwt_payload tok) = Some e" and "e < now"
    and "issued_by_now (jwt_payload tok) now"
  shows "receive_and_verify_act_jwt v tok expected_audience now = (Inl Expired, v)"
proof -
  have "jwt_decode tok (app_public_key v) [''RS256''] expected_audience now =
      Inl ExpiredSignatureError"
    using assms by (simp add: jwt_decode_signed validate_claims_expired)
  then show ?thesis by (simp add: receive_and_verify_act_jwt_def)
qed

theorem expired_assertion_rejected_witness:
  "receive_and_verify_act_jwt \<lparr>app_public_key = 7, used_jtis = {}\<rparr>
     (jwt_encode \<lparr>c_iss = Some ''application'', c_sub = Some ''application'',
                  c_aud = Some ''https://agent.example.com'', c_exp = Some 1060,
                  c_iat = Some 1000, c_jti = Some ''n1'',
                  c_act = Some [(''sub'', ''alice'')]\<rparr> 7)
     ''https://agent.example.com'' 1061 =
   (Inl Expired, \<lparr>app_public_key = 7, used_jtis = {}\<rparr>)"
  using expired_assertion_rejected
    [of "\<lparr>app_public_key = 7, used_jtis = {}\<rparr>"
        "jwt_encode \<lparr>c_iss = Some ''application'', c_sub = Some ''application'',
                  c_aud = Some ''https://agent.example.com'', c_exp = Some 1060,
                  c_iat = Some 1000, c_jti = Some ''n1'',
                  c_act = Some [(''sub'', ''alice'')]\<rparr> 7"
        1060 1061 "''https://agent.example.com''"]
  by (simp add: jwt_encode_verifies jwt_encode_payload issued_by_now_def)

text \<open>
  Claim C5 (audience). A token whose signature verifies under the verifier's key, which
  was issued no later than the clock reading of the call, has not expired at that reading
  and was issued for the audience \<open>a\<close>, is rejected with \<open>AudienceMismatch\<close> when the
  expected audience is any string other than \<open>a\<close>; the verifier is unchanged.
\<close>

theorem audience_mismatch_rejected:
  assumes "signature_verifies (app_public_key v) tok"
    and "issued_by_now (jwt_payload tok) now" and "unexpired (jwt_payload tok) now"
    and "c_aud (jwt_payload tok) = Some a" and "a \<noteq> []" and "expected_audience \<noteq> a"
  shows "receive_and_verify_act_jwt v tok expected_audience now = (Inl AudienceMismatch, v)"
proof -
  have "jwt_decode tok (app_public_key v) [''RS256''] expected_audience now =
      Inl InvalidAudienceError"
    using assms by (simp add: jwt_decode_signed validate_claims_audience)
  then show ?thesis by (simp add: receive_and_verify_act_jwt_def)
qed

theorem audience_mismatch_rejected_witness:
  "receive_and_verify_act_jwt \<lparr>app_public_key = 7, used_jtis = {}\<rparr>
     (jwt_encode \<lparr>c_iss = Some ''application'', c_sub = Some ''application'',
                  c_aud = Some ''https://agent.example.com'', c_exp = Some 1060,
                  c_iat = Some 1000, c_jti = Some ''n1'',
                  c_act = Some [(''sub'', ''alice'')]\<rparr> 7)
     ''https://agent.example.com/'' 1010 =
   (Inl AudienceMismatch, \<lparr>app_public_key = 7, used_jtis = {}\<rparr>)"
  using audience_mismatch_rejected
    [of "\<lparr>app_public_key = 7, used_jtis = {}\<rparr>"
        "jwt_encode \<lparr>c_iss = Some ''application'', c_sub = Some ''application'',
                  c_aud = Some ''https://agent.example.com'', c_exp = Some 1060,
                  c_iat = Some 1000, c_jti = Some ''n1'',
                  c_act = Some [(''sub'', ''alice'')]\<rparr> 7"
        1010 "''https://agent.example.com''" "''https://agent.example.com/''"]
  by (simp add: jwt_encode_verifies jwt_encode_payload issued_by_now_def unexpired_def)

text \<open>
  Claim C3 (signature first), as the code has it. A token that does not pass the
  signature stage is rejected before any of its claims is read: the verifier is unchanged
  (no jti is consumed) and the outcome does not depend on the payload, the expected
  audience or the clock. The outcome is \<open>SignatureInvalid\<close> when the header names RS256
  and the signature does not verify under the verifier's key (another key, an empty
  signature, a payload changed after signing). When the header names any other algorithm
  (\<^verbatim>\<open>none\<close>, \<^verbatim>\<open>HS256\<close>), the library raises \<^verbatim>\<open>InvalidAlgorithmError\<close>, which only the
  verifier's last handler catches: the outcome is \<open>InvalidToken InvalidAlgorithmError\<close>,
  not \<open>SignatureInvalid\<close>.
\<close>

theorem unverified_signature_rejected:
  assumes "\<not> signature_verifies (app_public_key v) tok"
  shows "receive_and_verify_act_jwt v tok expected_audience now =
     (Inl (if alg (jwt_header tok) = ''RS256'' then SignatureInvalid
           else InvalidToken InvalidAlgorithmError), v)"
  using assms by (simp add: receive_and_verify_act_jwt_def jwt_decode_unsigned)

theorem unverified_signature_rejected_witness:
  "\<not> signature_verifies 7
       (jwt_encode \<lparr>c_iss = Some ''application'', c_sub = Some ''application'',
                  c_aud = Some ''https://agent.example.com'', c_exp = Some 1060,
                  c_iat = Some 1000, c_jti = Some ''n1'',
                  c_act = Some [(''sub'', ''mallory'')]\<rparr> 8) \<and>
   receive_and_verify_act_jwt \<lparr>app_public_key = 7, used_jtis = {}\<rparr>
     (jwt_encode \<lparr>c_iss = Some ''application'', c_sub = Some ''application'',
                  c_aud = Some ''https://agent.example.com'', c_exp = Some 1060,
                  c_iat = Some 1000, c_jti = Some ''n1'',
                  c_act = Some [(''sub'', ''mallory'')]\<rparr> 8)
     ''https://agent.example.com'' 1010 =
   (Inl SignatureInvalid, \<lparr>app_public_key = 7, used_jtis = {}\<rparr>)"
  using unverified_signature_rejected
    [of "\<lparr>app_public_key = 7, used_jtis = {}\<rparr>"
        "jwt_encode \<lparr>c_iss = Some ''application'', c_sub = Some ''application'',
                  c_aud = Some ''https://agent.example.com'', c_exp = Some 1060,
                  c_iat = Some 1000, c_jti = Some ''n1'',
                  c_act = Some [(''sub'', ''mallory'')]\<rparr> 8"
        "''https://agent.example.com''" 1010]
  by (simp add: signature_verifies_def rs256_verify_def jwt_encode_def)

text \<open>
  The claim as the specification words it fails for an unsigned token whose header names
  the algorithm \<^verbatim>\<open>none\<close>: its signature does not verify, and the outcome is the generic
  invalid-token error.
\<close>

theorem unsigned_none_not_signature_invalid:
  "\<not> signature_verifies 7
       \<lparr>jwt_header = \<lparr>alg = ''none''\<rparr>,
        jwt_payload = \<lparr>c_iss = Some ''application'', c_sub = Some ''application'',
                       c_aud = Some ''https://agent.example.com'', c_exp = Some 1060,
                       c_iat = Some 1000, c_jti = Some ''n1'',
                       c_act = Some [(''sub'', ''mallory'')]\<rparr>,
        jwt_signature = Opaque_Sig []\<rparr> \<and>
   fst (receive_and_verify_act_jwt \<lparr>app_public_key = 7, used_jtis = {}\<rparr>
       \<lparr>jwt_header = \<lparr>alg = ''none''\<rparr>,
        jwt_payload = \<lparr>c_iss = Some ''application'', c_sub = Some ''application'',
                       c_aud = Some ''https://agent.example.com'', c_exp = Some 1060,
                       c_iat = Some 1000, c_jti = Some ''n1'',
                       c_act = Some [(''sub'', ''mallory'')]\<rparr>,
        jwt_signature = Opaque_Sig []\<rparr>
       ''https://agent.example.com'' 1010) = Inl (InvalidToken InvalidAlgorithmError) \<and>
   fst (receive_and_verify_act_jwt \<lparr>app_public_key = 7, used_jtis = {}\<rparr>
       \<lparr>jwt_header = \<lparr>alg = ''none''\<rparr>,
        jwt_payload = \<lparr>c_iss = Some ''application'', c_sub = Some ''application'',
                       c_aud = Some ''https://agent.example.com'', c_exp = Some 1060,
                       c_iat = Some 1000, c_jti = Some ''n1'',
                       c_act = Some [(''sub'', ''mallory'')]\<rparr>,
        jwt_signature = Opaque_Sig []\<rparr>
       ''https://agent.example.com'' 1010) \<noteq> Inl SignatureInvalid"
  by (simp add: signature_verifies_def receive_and_verify_act_jwt_def jwt_decode_def)

section \<open>Claims about replay protection\<close>

text \<open>
  Claim C2 (replay), as the code has it. Let a call with an assertion that carries a
  non-empty jti succeed. Then
  \<^item> no later call with the same assertion on the resulting verifier succeeds, whatever
    its expected audience and clock reading are, and it leaves the verifier unchanged;
  \<^item> a later call with the same expected audience at a reading at which the assertion
    is issued and unexpired fails with \<open>ReplayDetected\<close>;
  \<^item> in every run of calls, from every starting state, at most one call consumes that
    jti.
  The error of the second call is not always \<open>ReplayDetected\<close>: the library checks expiry
  and audience before the verifier looks at the jti, so a second call after the expiry
  fails with \<open>Expired\<close> and one with another expected audience with \<open>AudienceMismatch\<close>.
\<close>

theorem replayed_assertion_rejected:
  assumes first: "receive_and_verify_act_jwt v tok aud t1 = (Inr a, v1)"
    and jti: "c_jti (jwt_payload tok) = Some j" "j \<noteq> []"
  shows "(\<forall>aud2 t2. \<exists>e. receive_and_verify_act_jwt v1 tok aud2 t2 = (Inl e, v1)) \<and>
         (\<forall>t2. issued_by_now (jwt_payload tok) t2 \<and> unexpired (jwt_payload tok) t2 \<longrightarrow>
               receive_and_verify_act_jwt v1 tok aud t2 = (Inl ReplayDetected, v1)) \<and>
         (\<forall>v0 cs. length (filter (consumed j) (zip cs (verify_calls v0 cs))) \<le> 1)"
proof (intro conjI allI impI)
  have used: "j \<in> used_jtis v1" using first jti by (rule receive_success_consumes)
  have key: "app_public_key v1 = app_public_key v"
    using receive_key_unchanged[of v tok aud t1] first by simp
  show "\<exists>e. receive_and_verify_act_jwt v1 tok aud2 t2 = (Inl e, v1)" for aud2 t2
    using jti used by (rule receive_consumed_fails)
  show "receive_and_verify_act_jwt v1 tok aud t2 = (Inl ReplayDetected, v1)"
    if ok: "issued_by_now (jwt_payload tok) t2 \<and> unexpired (jwt_payload tok) t2" for t2
  proof -
    from first have "jwt_decode tok (app_public_key v) [''RS256''] aud t1 = Inr (jwt_payload tok)"
      by (rule receive_success_decoded)
    then have facts: "signature_verifies (app_public_key v) tok \<and>
        c_aud (jwt_payload tok) = Some aud \<and> aud \<noteq> []"
      by (rule jwt_decode_success_facts)
    have "jwt_decode tok (app_public_key v1) [''RS256''] aud t2 = Inr (jwt_payload tok)"
      using facts ok key by (simp add: jwt_decode_signed validate_claims_pass)
    then show ?thesis using jti used by (rule receive_consumed_replay)
  qed
  show "length (filter (consumed j) (zip cs (verify_calls v0 cs))) \<le> 1" for v0 cs
    using jti(2) by (rule consumed_at_most_once)
qed

theorem replayed_assertion_rejected_witness:
  "receive_and_verify_act_jwt \<lparr>app_public_key = 7, used_jtis = {}\<rparr>
     (jwt_encode \<lparr>c_iss = Some ''application'', c_sub = Some ''application'',
                  c_aud = Some ''https://agent.example.com'', c_exp = Some 1060,
                  c_iat = Some 1000, c_jti = Some ''n1'',
                  c_act = Some [(''sub'', ''alice'')]\<rparr> 7)
     ''https://agent.example.com'' 1010 =
     (Inr [(''sub'', ''alice'')], \<lparr>app_public_key = 7, used_jtis = {''n1''}\<rparr>) \<and>
   receive_and_verify_act_jwt \<lparr>app_public_key = 7, used_jtis = {''n1''}\<rparr>
     (jwt_encode \<lparr>c_iss = Some ''application'', c_sub = Some ''application'',
                  c_aud = Some ''https://agent.example.com'', c_exp = Some 1060,
                  c_iat = Some 1000, c_jti = Some ''n1'',
                  c_act = Some [(''sub'', ''alice'')]\<rparr> 7)
     ''https://agent.example.com'' 1011 =
     (Inl ReplayDetected, \<lparr>app_public_key = 7, used_jtis = {''n1''}\<rparr>)"
proof -
  let ?tok = "jwt_encode \<lparr>c_iss = Some ''application'', c_sub = Some ''application'',
                  c_aud = Some ''https://agent.example.com'', c_exp = Some 1060,
                  c_iat = Some 1000, c_jti = Some ''n1'',
                  c_act = Some [(''sub'', ''alice'')]\<rparr> 7"
  let ?v = "\<lparr>app_public_key = 7, used_jtis = {}\<rparr>"
  let ?v1 = "\<lparr>app_public_key = 7, used_jtis = {''n1''}\<rparr>"
  have first: "receive_and_verify_act_jwt ?v ?tok ''https://agent.example.com'' 1010 =
      (Inr [(''sub'', ''alice'')], ?v1)"
    by (simp add: receive_and_verify_act_jwt_def jwt_decode_def jwt_encode_def rs256_verify_def
        validate_claims_def validate_iat_def validate_exp_def validate_aud_def
        replay_check_def dict_has_def)
  have jti: "c_jti (jwt_payload ?tok) = Some ''n1''" by (simp add: jwt_encode_def)
  have ne: "''n1'' \<noteq> []" by simp
  from replayed_assertion_rejected[OF first jti ne]
  have "issued_by_now (jwt_payload ?tok) 1011 \<and> unexpired (jwt_payload ?tok) 1011 \<longrightarrow>
        receive_and_verify_act_jwt ?v1 ?tok ''https://agent.example.com'' 1011 =
          (Inl ReplayDetected, ?v1)"
    by blast
  then have "receive_and_verify_act_jwt ?v1 ?tok ''https://agent.example.com'' 1011 =
          (Inl ReplayDetected, ?v1)"
    by (simp add: issued_by_now_def unexpired_def jwt_encode_def)
  with first show ?thesis by simp
qed

text \<open>
  The scenario of the specification's last testable property: an assertion issued at
  1000 with a time to live of 60 seconds is verified at 1010, which succeeds, and the
  same assertion is presented again at 1061. The second call fails with \<open>Expired\<close>, not
  with \<open>ReplayDetected\<close>.
\<close>

theorem second_call_after_expiry_is_expired:
  "receive_and_verify_act_jwt \<lparr>app_public_key = 7, used_jtis = {}\<rparr>
     (jwt_encode \<lparr>c_iss = Some ''application'', c_sub = Some ''application'',
                  c_aud = Some ''https://agent.example.com'', c_exp = Some 1060,
                  c_iat = Some 1000, c_jti = Some ''n1'',
                  c_act = Some [(''sub'', ''alice'')]\<rparr> 7)
     ''https://agent.example.com'' 1010 =
     (Inr [(''sub'', ''alice'')], \<lparr>app_public_key = 7, used_jtis = {''n1''}\<rparr>) \<and>
   receive_and_verify_act_jwt \<lparr>app_public_key = 7, used_jtis = {''n1''}\<rparr>
     (jwt_encode \<lparr>c_iss = Some ''application'', c_sub = Some ''application'',
                  c_aud = Some ''https://agent.example.com'', c_exp = Some 1060,
                  c_iat = Some 1000, c_jti = Some ''n1'',
                  c_act = Some [(''sub'', ''alice'')]\<rparr> 7)
     ''https://agent.example.com'' 1061 =
     (Inl Expired, \<lparr>app_public_key = 7, used_jtis = {''n1''}\<rparr>) \<and>
   fst (receive_and_verify_act_jwt \<lparr>app_public_key = 7, used_jtis = {''n1''}\<rparr>
     (jwt_encode \<lparr>c_iss = Some ''application'', c_sub = Some ''application'',
                  c_aud = Some ''https://agent.example.com'', c_exp = Some 1060,
                  c_iat = Some 1000, c_jti = Some ''n1'',
                  c_act = Some [(''sub'', ''alice'')]\<rparr> 7)
     ''https://agent.example.com'' 1061) \<noteq> Inl ReplayDetected"
  by (simp add: receive_and_verify_act_jwt_def jwt_decode_def jwt_encode_def rs256_verify_def
      validate_claims_def validate_iat_def validate_exp_def validate_aud_def
      replay_check_def dict_has_def)

text \<open>
  Claim C9 (the jti is consumed before the act is looked at). A token whose signature
  verifies, which is issued and unexpired at both clock readings, whose audience is the
  expected one, which carries a jti (one that Python takes as true: a non-empty string)
  that the verifier has not consumed, and whose act is missing or has no \<^verbatim>\<open>sub\<close>: the
  first call fails with \<open>MalformedClaim\<close> and nevertheless adds the jti to the consumed
  set; the second call, on the verifier the first one left, fails with
  \<open>ReplayDetected\<close>.
\<close>

theorem jti_consumed_before_act_checked:
  assumes sig: "signature_verifies (app_public_key v) tok"
    and t1: "issued_by_now (jwt_payload tok) t1" "unexpired (jwt_payload tok) t1"
    and t2: "issued_by_now (jwt_payload tok) t2" "unexpired (jwt_payload tok) t2"
    and aud: "c_aud (jwt_payload tok) = Some aud" "aud \<noteq> []"
    and jti: "c_jti (jwt_payload tok) = Some j" "j \<noteq> []" "j \<notin> used_jtis v"
    and act: "lacks_sub (c_act (jwt_payload tok))"
  shows "receive_and_verify_act_jwt v tok aud t1 =
           (Inl MalformedClaim, v\<lparr>used_jtis := insert j (used_jtis v)\<rparr>) \<and>
         receive_and_verify_act_jwt (v\<lparr>used_jtis := insert j (used_jtis v)\<rparr>) tok aud t2 =
           (Inl ReplayDetected, v\<lparr>used_jtis := insert j (used_jtis v)\<rparr>)"
proof
  have d1: "jwt_decode tok (app_public_key v) [''RS256''] aud t1 = Inr (jwt_payload tok)"
    using sig t1 aud by (simp add: jwt_decode_signed validate_claims_pass)
  show "receive_and_verify_act_jwt v tok aud t1 =
           (Inl MalformedClaim, v\<lparr>used_jtis := insert j (used_jtis v)\<rparr>)"
    using jti act
    by (auto simp add: receive_and_verify_act_jwt_def d1 replay_check_def lacks_sub_def
        dict_has_def split: option.splits)
  let ?v = "v\<lparr>used_jtis := insert j (used_jtis v)\<rparr>"
  have d2: "jwt_decode tok (app_public_key ?v) [''RS256''] aud t2 = Inr (jwt_payload tok)"
    using sig t2 aud by (simp add: jwt_decode_signed validate_claims_pass)
  show "receive_and_verify_act_jwt ?v tok aud t2 = (Inl ReplayDetected, ?v)"
    using d2 jti(1,2) by (rule receive_consumed_replay) simp
qed

theorem jti_consumed_before_act_checked_witness:
  "receive_and_verify_act_jwt \<lparr>app_public_key = 7, used_jtis = {}\<rparr>
     (jwt_encode \<lparr>c_iss = Some ''application'', c_sub = Some ''application'',
                  c_aud = Some ''https://agent.example.com'', c_exp = Some 1060,
                  c_iat = Some 1000, c_jti = Some ''n1'',
                  c_act = Some [(''email'', ''alice@example.com'')]\<rparr> 7)
     ''https://agent.example.com'' 1010 =
     (Inl MalformedClaim, \<lparr>app_public_key = 7, used_jtis = {''n1''}\<rparr>) \<and>
   receive_and_verify_act_jwt \<lparr>app_public_key = 7, used_jtis = {''n1''}\<rparr>
     (jwt_encode \<lparr>c_iss = Some ''application'', c_sub = Some ''application'',
                  c_aud = Some ''https://agent.example.com'', c_exp = Some 1060,
                  c_iat = Some 1000, c_jti = Some ''n1'',
                  c_act = Some [(''email'', ''alice@example.com'')]\<rparr> 7)
     ''https://agent.example.com'' 1020 =
     (Inl ReplayDetected, \<lparr>app_public_key = 7, used_jtis = {''n1''}\<rparr>)"
  using jti_consumed_before_act_checked
    [of "\<lparr>app_public_key = 7, used_jtis = {}\<rparr>"
        "jwt_encode \<lparr>c_iss = Some ''application'', c_sub = Some ''application'',
                  c_aud = Some ''https://agent.example.com'', c_exp = Some 1060,
                  c_iat = Some 1000, c_jti = Some ''n1'',
                  c_act = Some [(''email'', ''alice@example.com'')]\<rparr> 7"
        1010 1020 "''https://agent.example.com''" "''n1''"]
  by (simp add: jwt_encode_verifies jwt_encode_payload issued_by_now_def unexpired_def
      lacks_sub_def dict_has_def)

section \<open>Claims about the hybrid sender\<close>

lemma py_truthy_or: "py_truthy (py_or a b) = (py_truthy a \<or> py_truthy b)"
  by (simp add: py_or_def)

lemma py_truthy_Some: "py_truthy x \<Longrightarrow> \<exists>s. x = Some s \<and> s \<noteq> []"
  by (cases x) (simp_all add: py_truthy_def)

lemma session_email_truthy: "py_truthy (session_email session) = has_email session"
  by (simp add: session_email_def has_email_def py_truthy_or)

lemma session_email_source:
  assumes "py_truthy (session_email session)"
  shows "session_email session \<in> {dict_get session ''email'', dict_get session ''user_email'',
           dict_get session ''userPrincipalName'', dict_get session ''mail''}"
  using assms by (auto simp add: session_email_def py_or_def split: if_splits)

lemma empty_session_no_email: "\<not> has_email []"
  by (simp add: has_email_def dict_get_def py_truthy_def)

lemma extract_fails_iff:
  "(\<exists>err. extract_act_from_session self session = Inl err) \<longleftrightarrow> \<not> has_email session"
proof (cases "session = []")
  case True
  then show ?thesis
    by (simp add: extract_act_from_session_def empty_session_no_email)
next
  case False
  show ?thesis
  proof (cases "session_email session")
    case None
    then have "\<not> py_truthy (session_email session)" by (simp add: py_truthy_def)
    then have "\<not> has_email session" by (simp add: session_email_truthy)
    with None False show ?thesis
      by (simp add: extract_act_from_session_def session_email_def[symmetric])
  next
    case (Some e)
    then have "has_email session = (e \<noteq> [])"
      by (simp add: session_email_truthy[symmetric] py_truthy_def)
    with Some False show ?thesis
      by (simp add: extract_act_from_session_def session_email_def[symmetric] Let_def)
  qed
qed

lemma extract_without_subject:
  assumes "has_email session" and "\<not> has_subject session"
  shows "\<exists>e. e \<noteq> [] \<and> session_email session = Some e \<and>
           extract_act_from_session self session =
             Inr (if py_truthy (session_name session)
                  then [(''sub'', e), (''email'', e)] @
                       [(''name'', (case session_name session of Some n \<Rightarrow> n | None \<Rightarrow> []))]
                  else [(''sub'', e), (''email'', e)])"
proof -
  from assms(1) have "py_truthy (session_email session)" by (simp add: session_email_truthy)
  then obtain e where e: "session_email session = Some e" "e \<noteq> []"
    by (auto dest: py_truthy_Some)
  have ne: "session \<noteq> []" using assms(1) empty_session_no_email by auto
  have sub: "py_or (py_or (py_or (dict_get session ''sub'') (dict_get session ''user_id''))
                (dict_get session ''oid'')) (Some e) = Some e"
    using assms(2) by (simp add: has_subject_def py_or_def)
  have "extract_act_from_session self session =
             Inr (if py_truthy (session_name session)
                  then [(''sub'', e), (''email'', e)] @
                       [(''name'', (case session_name session of Some n \<Rightarrow> n | None \<Rightarrow> []))]
                  else [(''sub'', e), (''email'', e)])"
    using e ne sub
    by (simp add: extract_act_from_session_def session_email_def[symmetric]
        session_name_def[symmetric] Let_def)
  with e show ?thesis by blast
qed

text \<open>
  Claim C10 (the email stands in for the subject). A field is present when
  \<^verbatim>\<open>session.get\<close> gives a true value for it, as the code tests it. The extraction fails
  exactly when no email-equivalent field is present, whether or not a subject field is.
  When an email-equivalent field is present and none of \<^verbatim>\<open>sub\<close>, \<^verbatim>\<open>user_id\<close>, \<^verbatim>\<open>oid\<close>
  is, it succeeds, and the \<^verbatim>\<open>sub\<close> and the \<^verbatim>\<open>email\<close> of the act it returns are both the
  extracted email, which is the value of one of the four email-equivalent fields.
\<close>

theorem extract_act_sub_falls_back_to_email:
  "((\<exists>err. extract_act_from_session self session = Inl err) \<longleftrightarrow> \<not> has_email session) \<and>
   (has_email session \<and> \<not> has_subject session \<longrightarrow>
      (\<exists>act e. extract_act_from_session self session = Inr act \<and> e \<noteq> [] \<and>
          Some e \<in> {dict_get session ''email'', dict_get session ''user_email'',
                     dict_get session ''userPrincipalName'', dict_get session ''mail''} \<and>
          dict_get act ''sub'' = Some e \<and> dict_get act ''email'' = Some e))"
proof (intro conjI impI)
  show "(\<exists>err. extract_act_from_session self session = Inl err) \<longleftrightarrow> \<not> has_email session"
    by (rule extract_fails_iff)
next
  assume h: "has_email session \<and> \<not> has_subject session"
  then obtain e where e: "e \<noteq> []" "session_email session = Some e"
    and r: "extract_act_from_session self session =
             Inr (if py_truthy (session_name session)
                  then [(''sub'', e), (''email'', e)] @
                       [(''name'', (case session_name session of Some n \<Rightarrow> n | None \<Rightarrow> []))]
                  else [(''sub'', e), (''email'', e)])"
    using extract_without_subject[of session self] by blast
  have "py_truthy (session_email session)" using h by (simp add: session_email_truthy)
  then have src: "Some e \<in> {dict_get session ''email'', dict_get session ''user_email'',
           dict_get session ''userPrincipalName'', dict_get session ''mail''}"
    using session_email_source[of session] e(2) by simp
  show "\<exists>act e. extract_act_from_session self session = Inr act \<and> e \<noteq> [] \<and>
          Some e \<in> {dict_get session ''email'', dict_get session ''user_email'',
                     dict_get session ''userPrincipalName'', dict_get session ''mail''} \<and>
          dict_get act ''sub'' = Some e \<and> dict_get act ''email'' = Some e"
    using r e(1) src by (cases "py_truthy (session_name session)") (auto simp add: dict_get_def)
qed

theorem extract_act_sub_falls_back_to_email_witness:
  "has_email [(''mail'', ''alice@example.com'')] \<and>
   \<not> has_subject [(''mail'', ''alice@example.com'')] \<and>
   extract_act_from_session \<lparr>private_key = None\<rparr> [(''mail'', ''alice@example.com'')] =
     Inr [(''sub'', ''alice@example.com''), (''email'', ''alice@example.com'')] \<and>
   \<not> has_email [(''sub'', ''u1''), (''oid'', ''o1'')] \<and>
   extract_act_from_session \<lparr>private_key = None\<rparr> [(''sub'', ''u1''), (''oid'', ''o1'')] =
     Inl MissingIdentity"
  using extract_act_sub_falls_back_to_email
      [of "\<lparr>private_key = None\<rparr>" "[(''mail'', ''alice@example.com'')]"]
    extract_act_sub_falls_back_to_email
      [of "\<lparr>private_key = None\<rparr>" "[(''sub'', ''u1''), (''oid'', ''o1'')]"]
  by (simp add: has_email_def has_subject_def dict_get_def py_truthy_def py_or_def
      extract_act_from_session_def)

text \<open>
  Claim C6 (validation of the assertion request), as the code has it.
  \<^verbatim>\<open>prepare_out_of_session_act\<close> fails whenever the audience does not start with
  \<^verbatim>\<open>https://\<close>, and with \<open>InvalidAssertionRequest\<close> once a signing key is loaded and the
  act has a \<^verbatim>\<open>sub\<close> (the two earlier checks). It never looks at \<^verbatim>\<open>ttl_seconds\<close>: with
  a key, an act with \<^verbatim>\<open>sub\<close> and an HTTPS audience it succeeds for every integer
  \<^verbatim>\<open>ttl_seconds\<close>. Whenever it succeeds the audience is HTTPS and the payload has
  \<^verbatim>\<open>iat = now\<close> and \<^verbatim>\<open>exp = iat + ttl_seconds\<close>, so that \<^verbatim>\<open>exp > iat\<close> holds exactly when
  \<^verbatim>\<open>ttl_seconds\<close> is positive.
\<close>

theorem prepare_checks_audience_not_ttl:
  "(\<not> startswith agent_endpoint ''https://'' \<longrightarrow>
      (\<exists>e. prepare_out_of_session_act self act agent_endpoint ttl_seconds now jti = Inl e) \<and>
      (private_key self \<noteq> None \<and> dict_has act ''sub'' \<longrightarrow>
         prepare_out_of_session_act self act agent_endpoint ttl_seconds now jti =
           Inl InvalidAssertionRequest)) \<and>
   (private_key self \<noteq> None \<and> dict_has act ''sub'' \<and> startswith agent_endpoint ''https://'' \<longrightarrow>
      (\<exists>tok. prepare_out_of_session_act self act agent_endpoint ttl_seconds now jti = Inr tok)) \<and>
   (\<forall>tok. prepare_out_of_session_act self act agent_endpoint ttl_seconds now jti = Inr tok \<longrightarrow>
      startswith agent_endpoint ''https://'' \<and>
      (\<exists>i e. c_iat (jwt_payload tok) = Some i \<and> c_exp (jwt_payload tok) = Some e \<and>
             i = now \<and> e = i + ttl_seconds \<and> (i < e) = (0 < ttl_seconds)))"
  by (auto simp add: prepare_out_of_session_act_def jwt_encode_def dict_has_def startswith_def
      split: option.splits if_splits)

theorem prepare_checks_audience_not_ttl_witness:
  "prepare_out_of_session_act \<lparr>private_key = Some 7\<rparr> [(''sub'', ''alice'')]
      ''http://agent.example.com'' 60 1000 ''n1'' = Inl InvalidAssertionRequest \<and>
   (\<exists>tok. prepare_out_of_session_act \<lparr>private_key = Some 7\<rparr> [(''sub'', ''alice'')]
      ''https://agent.example.com'' (- 5) 1000 ''n1'' = Inr tok \<and>
      c_iat (jwt_payload tok) = Some 1000 \<and> c_exp (jwt_payload tok) = Some 995)"
  using prepare_checks_audience_not_ttl
      [of "''http://agent.example.com''" "\<lparr>private_key = Some 7\<rparr>" "[(''sub'', ''alice'')]"
          60 1000 "''n1''"]
    prepare_checks_audience_not_ttl
      [of "''https://agent.example.com''" "\<lparr>private_key = Some 7\<rparr>" "[(''sub'', ''alice'')]"
          "- 5" 1000 "''n1''"]
  by (auto simp add: dict_has_def startswith_def)

text \<open>
  The claim as the specification words it fails for a time to live of zero: the call
  succeeds, and the payload's \<^verbatim>\<open>exp\<close> equals its \<^verbatim>\<open>iat\<close>.
\<close>

theorem prepare_accepts_zero_ttl:
  "prepare_out_of_session_act \<lparr>private_key = Some 7\<rparr> [(''sub'', ''alice'')]
      ''https://agent.example.com'' 0 1000 ''n1'' =
     Inr (jwt_encode \<lparr>c_iss = Some ''application'', c_sub = Some ''application'',
                      c_aud = Some ''https://agent.example.com'', c_exp = Some 1000,
                      c_iat = Some 1000, c_jti = Some ''n1'',
                      c_act = Some [(''sub'', ''alice'')]\<rparr> 7) \<and>
   prepare_out_of_session_act \<lparr>private_key = Some 7\<rparr> [(''sub'', ''alice'')]
      ''https://agent.example.com'' 0 1000 ''n1'' \<noteq> Inl InvalidAssertionRequest"
  by (simp add: prepare_out_of_session_act_def dict_has_def startswith_def)

section \<open>Claims about the vendor adapters\<close>

text \<open>
  The validating constructor of code/python/base\_adapter.py builds an adapter exactly
  when the three required fields are in the configuration and the token URL starts with
  \<^verbatim>\<open>https://\<close>; otherwise it raises one of its two configuration errors.
\<close>

lemma BaseAdapter_init_succeeds_iff:
  "(\<exists>a. BaseAdapter_init config = Inr a) \<longleftrightarrow>
     (dict_has config ''token_url'' \<and> dict_has config ''client_id'' \<and>
      dict_has config ''client_secret'' \<and>
      (\<exists>url. dict_get config ''token_url'' = Some url \<and> startswith url ''https://''))"
  by (auto simp add: BaseAdapter_init_def required_fields_def dict_index_def dict_has_def
      dict_get_def Let_def split: option.splits sum.splits if_splits)

lemma BaseAdapter_init_no_KeyError:
  "BaseAdapter_init config = Inl e \<Longrightarrow> e \<noteq> KeyError k"
  by (auto simp add: BaseAdapter_init_def required_fields_def dict_index_def dict_has_def
      dict_get_def Let_def split: option.splits sum.splits if_splits)

text \<open>
  Claim C8 (validation at construction) does not hold for the adapters of
  agents/python/adapters: \<^verbatim>\<open>EntraIDAdapter.__init__\<close> stores its arguments and checks
  nothing. With a plain-HTTP token URL the construction succeeds, where the validating
  constructor refuses the same values, and a token request then posts the client secret
  to that URL.
\<close>

theorem EntraIDAdapter_init_accepts_http_url:
  "EntraIDAdapter_init ''http://login.example.com/token'' ''agent-1'' ''s3cret'' ''tenant-1'' =
     \<lparr>token_url = ''http://login.example.com/token'', client_id = ''agent-1'',
      client_secret = ''s3cret'', tenant_id = ''tenant-1''\<rparr> \<and>
   BaseAdapter_init [(''token_url'', ''http://login.example.com/token''),
                     (''client_id'', ''agent-1''), (''client_secret'', ''s3cret'')] =
     Inl TokenUrlNotHttps \<and>
   EntraIDAdapter_request_token
     (EntraIDAdapter_init ''http://login.example.com/token'' ''agent-1'' ''s3cret'' ''tenant-1'')
     (\<lambda>req. if req_url req = ''http://login.example.com/token'' \<and>
                body_client_secret (req_body req) = ''s3cret''
             then Responded \<lparr>status_code = 200, json_body = Some [(''access_token'', ''t0'')]\<rparr>
             else ConnectionFailed)
     ''agent-1'' [(''sub'', ''user:alice@example.com'')] [''read''] =
     Inr [(''access_token'', ''t0'')]"
  by (simp add: EntraIDAdapter_init_def BaseAdapter_init_def required_fields_def dict_has_def
      dict_index_def startswith_def EntraIDAdapter_request_token_def read_token_response_def
      raise_for_status_def)

text \<open>
  The in-session orchestrator lets no exception of its adapter out as it is: whatever
  the adapter raises leaves \<^verbatim>\<open>request_token\<close> as a \<^verbatim>\<open>TokenRequestError\<close>, and one that
  the orchestrator made itself has no status code and a message built from the name of
  the exception's class only.
\<close>

lemma wrap_exception_is_TokenRequestError:
  "\<exists>m c. wrap_exception e = TokenRequestError m c"
  by (cases e) simp_all

lemma wrap_exception_loses_status:
  "wrap_exception (HTTPError r) = TokenRequestError ''Unexpected error: HTTPError'' None"
  by simp

text \<open>
  Claim C7 (provider failures surface as \<^verbatim>\<open>TokenRequestError\<close> with the status code)
  does not hold for the adapters of agents/python/adapters. For a provider that answers
  HTTP 500, \<^verbatim>\<open>Auth0Adapter.request_token\<close> raises \<^verbatim>\<open>requests.HTTPError\<close> again as it
  caught it, with the response attached; the in-session orchestrator turns it into a
  \<^verbatim>\<open>TokenRequestError\<close> whose status code is \<^verbatim>\<open>None\<close>.
\<close>

theorem Auth0Adapter_http_500_not_TokenRequestError:
  "Auth0Adapter_request_token (Auth0Adapter_init ''tenant.auth0.example'' ''agent-1'' ''s3cret'')
     (\<lambda>req. Responded \<lparr>status_code = 500, json_body = Some [(''error'', ''server_error'')]\<rparr>)
     ''agent-1'' [(''sub'', ''user:alice@example.com'')] [''read''] =
     Inl (HTTPError \<lparr>status_code = 500, json_body = Some [(''error'', ''server_error'')]\<rparr>) \<and>
   InSessionTokenRequest_request_token
     (Auth0_adapter_call (Auth0Adapter_init ''tenant.auth0.example'' ''agent-1'' ''s3cret'')
        (\<lambda>req. Responded \<lparr>status_code = 500, json_body = Some [(''error'', ''server_error'')]\<rparr>))
     ''agent-1'' [(''sub'', ''user:alice@example.com'')] [''read''] =
     Inl (TokenRequestError ''Unexpected error: HTTPError'' None)"
  by (simp add: Auth0Adapter_request_token_def read_token_response_def raise_for_status_def
      InSessionTokenRequest_request_token_def Auth0_adapter_call_def dict_has_def)

end
